theory Spec2Isabelle
  imports Main "HOL-Library.Word"
begin

section \<open>The service builder of eco-goinfra\<close>

text \<open>
  A shallow embedding of package \<open>service\<close> (src/unnamed/part_000): the \<open>Builder\<close>
  struct, its guard \<open>validate\<close>, the cluster operations \<open>Exists\<close>, \<open>Create\<close>,
  \<open>Delete\<close>, the fluent \<open>With*\<close> mutators and the helper \<open>DefineServicePort\<close>.

  \<^item> A \<open>*Builder\<close> is an address into a store of builders, or nil (\<open>None\<close>): the
    methods mutate the builder they are called on and return a pointer, so pointer
    identity is part of what they do.
  \<^item> A \<open>*corev1.Service\<close>, a map and a slice that the code compares with nil are
    optional values; a dereference of nil is the outcome \<open>Panic\<close>.
  \<^item> The cluster client is not part of the package. It is a record of three
    functions, one for each call the package makes; each answers from the calls made
    so far, and every call is appended to a log.
  \<^item> The \<open>glog\<close> lines are left out, except that the fields they read are still
    dereferenced.
\<close>

subsection \<open>Kubernetes objects\<close>

datatype IntOrString_Type = intstr_Int | intstr_String

record IntOrString =
  IntStr_Type :: IntOrString_Type
  IntVal :: "32 word"
  StrVal :: string

text \<open>\<open>corev1.ServicePort\<close>, with the fields this package reads or writes.\<close>

record ServicePort =
  Protocol :: string
  Port :: "32 word"
  TargetPort :: IntOrString
  NodePort :: "32 word"

record ServiceSpec =
  Ports :: "ServicePort list"
  Selector :: "(string \<rightharpoonup> string) option"
  Type :: string
  ExternalTrafficPolicy :: string
  IPFamilies :: "string list option"
  IPFamilyPolicy :: "string option"

text \<open>
  \<open>corev1.Service\<close>: \<open>Name\<close>, \<open>Namespace\<close> and \<open>Annotations\<close> are the fields of the
  embedded \<open>ObjectMeta\<close>, which Go promotes to the service itself.
\<close>

record Service =
  Name :: string
  Namespace :: string
  Annotations :: "(string \<rightharpoonup> string) option"
  Spec :: ServiceSpec

subsection \<open>Errors\<close>

text \<open>
  An error is either what \<open>fmt.Errorf\<close> builds, kept as the format string and the
  operands it was given, or a status error of the cluster API, with the answer of
  \<open>k8serrors.IsNotFound\<close> and its text.
\<close>

datatype error =
  Errorf string "string list"
| StatusError bool string

fun IsNotFound :: "error option \<Rightarrow> bool" where
  "IsNotFound None = False"
| "IsNotFound (Some (Errorf f as)) = False"
| "IsNotFound (Some (StatusError nf m)) = nf"

text \<open>
  \<open>fmt.Sprintf\<close> on the formats of this package: literal text with \<open>%s\<close> verbs, one
  string operand for each.
\<close>

fun Sprintf :: "string \<Rightarrow> string list \<Rightarrow> string" where
  "Sprintf (c # d # f) (a # as) =
     (if c = CHR ''%'' \<and> d = CHR ''s'' then a @ Sprintf f as
      else c # Sprintf (d # f) (a # as))"
| "Sprintf f as = f"

text \<open>
  Modelled from the spec: \<open>msg.UndefinedCrdObjectErrString\<close> of package \<open>msg\<close> is not
  among the sources. Its text is the one \<open>TestIbguValidate\<close> (src/pkg/ibgu/ibgu_test.go)
  expects of a builder whose Definition is nil: "can not redefine the undefined ibgu".
\<close>

definition UndefinedCrdObjectErrString :: "string \<Rightarrow> string" where
  "UndefinedCrdObjectErrString crdName = Sprintf ''can not redefine the undefined %s'' [crdName]"

subsection \<open>The cluster client, the builder and the store\<close>

datatype api_call =
  GetCall string string
| CreateCall string Service
| DeleteCall string string

text \<open>
  \<open>clients.Settings\<close> as far as the package uses it: \<open>Services(ns).Get(name)\<close>,
  \<open>Services(ns).Create(service)\<close> and \<open>Services(ns).Delete(name)\<close>. The first argument
  is the log of the calls made before.
\<close>

record Settings =
  Services_Get :: "api_call list \<Rightarrow> string \<Rightarrow> string \<Rightarrow> Service option \<times> error option"
  Services_Create :: "api_call list \<Rightarrow> string \<Rightarrow> Service \<Rightarrow> Service option \<times> error option"
  Services_Delete :: "api_call list \<Rightarrow> string \<Rightarrow> string \<Rightarrow> error option"

record Builder =
  Definition :: "Service option"
  Object :: "Service option"
  errorMsg :: string
  apiClient :: "Settings option"

type_synonym ptr = "nat option"

record world =
  heap :: "nat \<Rightarrow> Builder"
  next_free :: nat
  calls :: "api_call list"

datatype 'a outcome = Panic | Return 'a world

definition store :: "nat \<Rightarrow> Builder \<Rightarrow> world \<Rightarrow> world" where
  "store a b w = w\<lparr>heap := (heap w)(a := b)\<rparr>"

definition resourceCRD :: string where
  "resourceCRD = ''Service''"

subsection \<open>validate\<close>

definition validate :: "ptr \<Rightarrow> world \<Rightarrow> (bool \<times> error option) \<times> world" where
  "validate builder w =
     (case builder of
        None \<Rightarrow> ((False, Some (Errorf ''error: received nil %s builder'' [resourceCRD])), w)
      | Some a \<Rightarrow>
          (let b0 = heap w a;
               b1 = (if Definition b0 = None
                     then b0\<lparr>errorMsg := UndefinedCrdObjectErrString resourceCRD\<rparr> else b0);
               b2 = (if apiClient b1 = None
                     then b1\<lparr>errorMsg := Sprintf ''%s builder cannot have nil apiClient'' [resourceCRD]\<rparr>
                     else b1);
               w' = store a b2 w
           in if errorMsg b2 \<noteq> [] then ((False, Some (Errorf (errorMsg b2) [])), w')
              else ((True, None), w')))"

subsection \<open>NewBuilder\<close>

definition NewBuilder ::
  "Settings option \<Rightarrow> string \<Rightarrow> string \<Rightarrow> (string \<rightharpoonup> string) option \<Rightarrow> ServicePort
    \<Rightarrow> world \<Rightarrow> ptr \<times> world" where
  "NewBuilder client name nsname labels servicePort w =
     (let b0 = \<lparr>Definition = Some \<lparr>Name = name, Namespace = nsname, Annotations = None,
                   Spec = \<lparr>Ports = [servicePort], Selector = labels, Type = [],
                            ExternalTrafficPolicy = [], IPFamilies = None,
                            IPFamilyPolicy = None\<rparr>\<rparr>,
                 Object = None, errorMsg = [], apiClient = client\<rparr>;
          b1 = (if name = [] then b0\<lparr>errorMsg := ''Service 'name' cannot be empty''\<rparr> else b0);
          b2 = (if nsname = [] then b1\<lparr>errorMsg := ''Namespace 'nsname' cannot be empty''\<rparr> else b1);
          a = next_free w
      in (Some a, (store a b2 w)\<lparr>next_free := Suc a\<rparr>))"

subsection \<open>Exists, Create, Delete\<close>

definition Exists :: "ptr \<Rightarrow> world \<Rightarrow> bool outcome" where
  "Exists builder w =
     (case validate builder w of
        ((valid, _), w1) \<Rightarrow>
          if \<not> valid then Return False w1
          else
            (case builder of
               None \<Rightarrow> Panic
             | Some a \<Rightarrow>
                 (case (Definition (heap w1 a), apiClient (heap w1 a)) of
                    (Some d, Some c) \<Rightarrow>
                      (let (obj, err) = Services_Get c (calls w1) (Namespace d) (Name d);
                           w2 = (store a ((heap w1 a)\<lparr>Object := obj\<rparr>) w1)
                                  \<lparr>calls := calls w1 @ [GetCall (Namespace d) (Name d)]\<rparr>
                       in Return (err = None \<or> \<not> IsNotFound err) w2)
                  | _ \<Rightarrow> Panic)))"

text \<open>
  In \<open>Create\<close> and \<open>Delete\<close> the log line after the guard reads
  \<open>builder.Definition.Name\<close>, hence the first look at \<open>Definition\<close>.
\<close>

definition Create :: "ptr \<Rightarrow> world \<Rightarrow> (ptr \<times> error option) outcome" where
  "Create builder w =
     (case validate builder w of
        ((valid, verr), w1) \<Rightarrow>
          if \<not> valid then Return (builder, verr) w1
          else
            (case builder of
               None \<Rightarrow> Panic
             | Some a \<Rightarrow>
                 (case Definition (heap w1 a) of
                    None \<Rightarrow> Panic
                  | Some _ \<Rightarrow>
                      (case Exists builder w1 of
                         Panic \<Rightarrow> Panic
                       | Return found w2 \<Rightarrow>
                           if \<not> found then
                             (case (Definition (heap w2 a), apiClient (heap w2 a)) of
                                (Some d, Some c) \<Rightarrow>
                                  (let (obj, err) = Services_Create c (calls w2) (Namespace d) d;
                                       w3 = (store a ((heap w2 a)\<lparr>Object := obj\<rparr>) w2)
                                              \<lparr>calls := calls w2 @ [CreateCall (Namespace d) d]\<rparr>
                                   in Return (builder, err) w3)
                              | _ \<Rightarrow> Panic)
                           else Return (builder, None) w2))))"

definition Delete :: "ptr \<Rightarrow> world \<Rightarrow> error option outcome" where
  "Delete builder w =
     (case validate builder w of
        ((valid, verr), w1) \<Rightarrow>
          if \<not> valid then Return verr w1
          else
            (case builder of
               None \<Rightarrow> Panic
             | Some a \<Rightarrow>
                 (case Definition (heap w1 a) of
                    None \<Rightarrow> Panic
                  | Some _ \<Rightarrow>
                      (case Exists builder w1 of
                         Panic \<Rightarrow> Panic
                       | Return found w2 \<Rightarrow>
                           if \<not> found then Return None w2
                           else
                             (case (Definition (heap w2 a), apiClient (heap w2 a),
                                    Object (heap w2 a)) of
                                (Some d, Some c, Some obj) \<Rightarrow>
                                  (let err = Services_Delete c (calls w2) (Namespace d) (Name obj);
                                       w3 = w2\<lparr>calls := calls w2 @ [DeleteCall (Namespace d) (Name obj)]\<rparr>
                                   in if err \<noteq> None then Return err w3
                                      else Return err (store a ((heap w3 a)\<lparr>Object := None\<rparr>) w3))
                              | _ \<Rightarrow> Panic)))))"

subsection \<open>The mutators\<close>

definition WithNodePort :: "ptr \<Rightarrow> world \<Rightarrow> ptr outcome" where
  "WithNodePort builder w =
     (case validate builder w of
        ((valid, _), w1) \<Rightarrow>
          if \<not> valid then Return builder w1
          else
            (case builder of
               None \<Rightarrow> Panic
             | Some a \<Rightarrow>
                 (case Definition (heap w1 a) of
                    None \<Rightarrow> Panic
                  | Some d \<Rightarrow>
                      (let d1 = d\<lparr>Spec := (Spec d)\<lparr>Type := ''NodePort''\<rparr>\<rparr>;
                           b1 = (heap w1 a)\<lparr>Definition := Some d1\<rparr>;
                           ports = Ports (Spec d1)
                       in if length ports < 1
                          then Return builder
                                 (store a (b1\<lparr>errorMsg := ''service does not have the available ports''\<rparr>) w1)
                          else Return builder
                                 (store a (b1\<lparr>Definition := Some (d1\<lparr>Spec := (Spec d1)
                                     \<lparr>Ports := ports[0 := (ports ! 0)\<lparr>NodePort := Port (ports ! 0)\<rparr>]\<rparr>\<rparr>)\<rparr>) w1)))))"

text \<open>
  An option is a function from the builder pointer to a builder pointer and an error; it
  may change the store and call the cluster. Of its error \<open>WithOptions\<close> uses only
  \<open>err.Error()\<close>, so the error is \<open>None\<close> for nil and the text otherwise. A nil option is
  \<open>None\<close> in the list of options.

  Inside the loop \<open>builder, err := option(builder)\<close> declares a new \<open>builder\<close>: the
  argument is the receiver each time, and what the option returned is used only when
  the error is not nil.
\<close>

type_synonym AdditionalOptions = "ptr \<Rightarrow> world \<Rightarrow> (ptr \<times> string option) outcome"

fun WithOptions_loop :: "ptr \<Rightarrow> AdditionalOptions option list \<Rightarrow> world \<Rightarrow> ptr outcome" where
  "WithOptions_loop builder [] w = Return builder w"
| "WithOptions_loop builder (None # options) w = WithOptions_loop builder options w"
| "WithOptions_loop builder (Some option # options) w =
     (case option builder w of
        Panic \<Rightarrow> Panic
      | Return (builder', None) w1 \<Rightarrow> WithOptions_loop builder options w1
      | Return (builder', Some msg) w1 \<Rightarrow>
          (case builder' of
             None \<Rightarrow> Panic
           | Some a' \<Rightarrow> Return builder' (store a' ((heap w1 a')\<lparr>errorMsg := msg\<rparr>) w1)))"

definition WithOptions :: "ptr \<Rightarrow> AdditionalOptions option list \<Rightarrow> world \<Rightarrow> ptr outcome" where
  "WithOptions builder options w =
     (case validate builder w of
        ((valid, _), w1) \<Rightarrow>
          if \<not> valid then Return builder w1 else WithOptions_loop builder options w1)"

text \<open>
  In the three mutators below the log line of a failed check reads
  \<open>builder.Definition.Name\<close>.
\<close>

definition WithExternalTrafficPolicy :: "ptr \<Rightarrow> string \<Rightarrow> world \<Rightarrow> ptr outcome" where
  "WithExternalTrafficPolicy builder policyType w =
     (case validate builder w of
        ((valid, _), w1) \<Rightarrow>
          if \<not> valid then Return builder w1
          else
            (case builder of
               None \<Rightarrow> Panic
             | Some a \<Rightarrow>
                 (let b = heap w1 a
                  in if policyType = [] \<and> Definition b = None then Panic
                     else
                       (let b1 = (if policyType = []
                                  then b\<lparr>errorMsg := ''ExternalTrafficPolicy can not be empty''\<rparr>
                                  else b)
                        in if errorMsg b1 \<noteq> [] then Return builder (store a b1 w1)
                           else
                             (case Definition b1 of
                                None \<Rightarrow> Panic
                              | Some d \<Rightarrow>
                                  Return builder
                                    (store a (b1\<lparr>Definition := Some (d\<lparr>Spec := (Spec d)
                                        \<lparr>Type := ''LoadBalancer'',
                                         ExternalTrafficPolicy := policyType\<rparr>\<rparr>)\<rparr>) w1))))))"

definition WithAnnotation :: "ptr \<Rightarrow> (string \<rightharpoonup> string) option \<Rightarrow> world \<Rightarrow> ptr outcome" where
  "WithAnnotation builder annotation w =
     (case validate builder w of
        ((valid, _), w1) \<Rightarrow>
          if \<not> valid then Return builder w1
          else
            (case builder of
               None \<Rightarrow> Panic
             | Some a \<Rightarrow>
                 (let b = heap w1 a
                  in if annotation = None \<and> Definition b = None then Panic
                     else
                       (let b1 = (if annotation = None
                                  then b\<lparr>errorMsg := ''Annotation can not be empty map''\<rparr>
                                  else b)
                        in if errorMsg b1 \<noteq> [] then Return builder (store a b1 w1)
                           else
                             (case Definition b1 of
                                None \<Rightarrow> Panic
                              | Some d \<Rightarrow>
                                  Return builder
                                    (store a (b1\<lparr>Definition := Some (d\<lparr>Annotations := annotation\<rparr>)\<rparr>)
                                       w1))))))"

definition WithIPFamily :: "ptr \<Rightarrow> string list option \<Rightarrow> string \<Rightarrow> world \<Rightarrow> ptr outcome" where
  "WithIPFamily builder ipFamily ipStackPolicy w =
     (case validate builder w of
        ((valid, _), w1) \<Rightarrow>
          if \<not> valid then Return builder w1
          else
            (case builder of
               None \<Rightarrow> Panic
             | Some a \<Rightarrow>
                 (let b = heap w1 a
                  in if (ipFamily = None \<or> ipStackPolicy = []) \<and> Definition b = None then Panic
                     else
                       (let b1 = (if ipFamily = None
                                  then b\<lparr>errorMsg := ''failed to set empty ipFamily''\<rparr> else b);
                            b2 = (if ipStackPolicy = []
                                  then b1\<lparr>errorMsg := ''failed to set empty ipStackPolicy''\<rparr> else b1)
                        in if errorMsg b2 \<noteq> [] then Return builder (store a b2 w1)
                           else
                             (case Definition b2 of
                                None \<Rightarrow> Panic
                              | Some d \<Rightarrow>
                                  Return builder
                                    (store a (b2\<lparr>Definition := Some (d\<lparr>Spec := (Spec d)
                                        \<lparr>IPFamilies := ipFamily,
                                         IPFamilyPolicy := Some ipStackPolicy\<rparr>\<rparr>)\<rparr>) w1))))))"

subsection \<open>DefineServicePort\<close>

definition isValidPort :: "32 word \<Rightarrow> bool" where
  "isValidPort port = (if (0 <s port) \<or> (port <s 65535) then True else False)"

definition DefineServicePort ::
  "32 word \<Rightarrow> 32 word \<Rightarrow> string \<Rightarrow> ServicePort option \<times> error option" where
  "DefineServicePort port targetPort protocol =
     (if \<not> isValidPort port then (None, Some (Errorf ''invalid port number'' []))
      else if \<not> isValidPort targetPort then (None, Some (Errorf ''invalid target port number'' []))
      else (Some \<lparr>Protocol = protocol, Port = port,
                  TargetPort = \<lparr>IntStr_Type = intstr_Int, IntVal = targetPort, StrVal = []\<rparr>,
                  NodePort = 0\<rparr>, None))"

subsection \<open>Observing an outcome\<close>

definition passes_validation :: "ptr \<Rightarrow> world \<Rightarrow> bool" where
  "passes_validation builder w = fst (fst (validate builder w))"

fun returned :: "'a outcome \<Rightarrow> 'a option" where
  "returned Panic = None"
| "returned (Return x w) = Some x"

fun world_after :: "'a outcome \<Rightarrow> world option" where
  "world_after Panic = None"
| "world_after (Return x w) = Some w"

fun Object_after :: "'a outcome \<Rightarrow> nat \<Rightarrow> Service option option" where
  "Object_after Panic a = None"
| "Object_after (Return x w) a = Some (Object (heap w a))"

subsection \<open>Builders, stores and clusters to run the operations on\<close>

definition example_port :: ServicePort where
  "example_port = \<lparr>Protocol = ''TCP'', Port = 80,
     TargetPort = \<lparr>IntStr_Type = intstr_Int, IntVal = 8080, StrVal = []\<rparr>, NodePort = 0\<rparr>"

definition example_service :: "string \<Rightarrow> string \<Rightarrow> Service" where
  "example_service ns name = \<lparr>Name = name, Namespace = ns, Annotations = None,
     Spec = \<lparr>Ports = [], Selector = None, Type = ''ClusterIP'', ExternalTrafficPolicy = [],
             IPFamilies = None, IPFamilyPolicy = None\<rparr>\<rparr>"

text \<open>The zero value of the struct, and a store that holds nothing else.\<close>

definition zero_Builder :: Builder where
  "zero_Builder = \<lparr>Definition = None, Object = None, errorMsg = [], apiClient = None\<rparr>"

definition world0 :: world where
  "world0 = \<lparr>heap = (\<lambda>a. zero_Builder), next_free = 0, calls = []\<rparr>"

text \<open>A cluster without services: every Get and Delete is answered NotFound.\<close>

definition empty_cluster :: Settings where
  "empty_cluster = \<lparr>
     Services_Get = (\<lambda>log ns name. (None, Some (StatusError True ''not found''))),
     Services_Create = (\<lambda>log ns svc. (Some svc, None)),
     Services_Delete = (\<lambda>log ns name. Some (StatusError True ''not found''))\<rparr>"

text \<open>A cluster that has every service asked for, and deletes on request.\<close>

definition full_cluster :: Settings where
  "full_cluster = \<lparr>
     Services_Get = (\<lambda>log ns name. (Some (example_service ns name), None)),
     Services_Create = (\<lambda>log ns svc. (None, Some (StatusError False ''already exists''))),
     Services_Delete = (\<lambda>log ns name. None)\<rparr>"


text \<open>A cluster that cannot be reached: every call fails, and not with NotFound.\<close>

definition unreachable_cluster :: Settings where
  "unreachable_cluster = \<lparr>
     Services_Get = (\<lambda>log ns name. (None, Some (StatusError False ''connection refused''))),
     Services_Create = (\<lambda>log ns svc. (None, Some (StatusError False ''connection refused''))),
     Services_Delete = (\<lambda>log ns name. Some (StatusError False ''connection refused''))\<rparr>"

text \<open>
  A client that allocates its result before it asks the cluster, as a typed client does
  with \<open>result = &v1.Service{}\<close>, and returns it with the error \<open>e\<close> when the
  request fails. Here every request fails.
\<close>

definition zero_Service :: Service where
  "zero_Service = \<lparr>Name = [], Namespace = [], Annotations = None,
     Spec = \<lparr>Ports = [], Selector = None, Type = [], ExternalTrafficPolicy = [],
             IPFamilies = None, IPFamilyPolicy = None\<rparr>\<rparr>"

definition allocating_cluster :: "error \<Rightarrow> Settings" where
  "allocating_cluster e = \<lparr>
     Services_Get = (\<lambda>log ns name. (Some zero_Service, Some e)),
     Services_Create = (\<lambda>log ns svc. (Some zero_Service, Some e)),
     Services_Delete = (\<lambda>log ns name. Some e)\<rparr>"

text \<open>The store after \<open>NewBuilder(client, name, nsname, nil, example_port)\<close>: the builder is at address 0.\<close>

definition world_of :: "Settings option \<Rightarrow> string \<Rightarrow> string \<Rightarrow> world" where
  "world_of client name nsname = snd (NewBuilder client name nsname None example_port world0)"

text \<open>The service that \<open>NewBuilder(client, "web", "default", nil, example_port)\<close> defines.\<close>

definition web :: Service where
  "web = \<lparr>Name = ''web'', Namespace = ''default'', Annotations = None,
          Spec = \<lparr>Ports = [example_port], Selector = None, Type = [],
                  ExternalTrafficPolicy = [], IPFamilies = None, IPFamilyPolicy = None\<rparr>\<rparr>"

definition web_world :: "Settings \<Rightarrow> world" where
  "web_world client = world_of (Some client) ''web'' ''default''"

text \<open>
  The store after \<open>Pull(full_cluster, "web", "default")\<close>: the Definition is the object
  the cluster returned, which has no ports.
\<close>

definition pulled_world :: world where
  "pulled_world = store 0 \<lparr>Definition = Some (example_service ''default'' ''web''),
      Object = Some (example_service ''default'' ''web''), errorMsg = [],
      apiClient = Some full_cluster\<rparr> world0"

text \<open>
  Three options for \<open>WithOptions\<close>, each reporting an error: the first returns the builder
  it was given, the second a builder of its own (\<open>&Builder{}\<close>), the third nil.
\<close>

definition failing_option :: AdditionalOptions where
  "failing_option builder w = Return (builder, Some ''option failed'') w"

definition fresh_builder_option :: AdditionalOptions where
  "fresh_builder_option builder w =
     Return (Some (next_free w), Some ''option failed'')
       ((store (next_free w) zero_Builder w)\<lparr>next_free := Suc (next_free w)\<rparr>)"

definition nil_builder_option :: AdditionalOptions where
  "nil_builder_option builder w = Return (None, Some ''option failed'') w"

section \<open>Properties\<close>

subsection \<open>The store and the guard\<close>

lemma store_same [simp]: "store a (heap w a) w = w"
  by (simp add: store_def)

lemma heap_store [simp]: "heap (store a b w) = (heap w)(a := b)"
  by (simp add: store_def)

lemma calls_store [simp]: "calls (store a b w) = calls w"
  by (simp add: store_def)

lemma next_free_store [simp]: "next_free (store a b w) = next_free w"
  by (simp add: store_def)

lemma validate_None:
  "validate None w = ((False, Some (Errorf ''error: received nil %s builder'' [''Service''])), w)"
  by (simp add: validate_def resourceCRD_def)

text \<open>The guard on a builder that is not nil, with the two formats rendered.\<close>

lemma validate_Some:
  "validate (Some a) w =
     (let b = heap w a in
      if apiClient b = None
      then ((False, Some (Errorf ''Service builder cannot have nil apiClient'' [])),
            store a (b\<lparr>errorMsg := ''Service builder cannot have nil apiClient''\<rparr>) w)
      else if Definition b = None
      then ((False, Some (Errorf ''can not redefine the undefined Service'' [])),
            store a (b\<lparr>errorMsg := ''can not redefine the undefined Service''\<rparr>) w)
      else if errorMsg b \<noteq> [] then ((False, Some (Errorf (errorMsg b) [])), w)
      else ((True, None), w))"
  by (auto simp: validate_def UndefinedCrdObjectErrString_def resourceCRD_def Let_def)

lemma passes_validation_iff:
  "passes_validation builder w \<longleftrightarrow>
     (\<exists>a. builder = Some a \<and> Definition (heap w a) \<noteq> None \<and> apiClient (heap w a) \<noteq> None
          \<and> errorMsg (heap w a) = [])"
  by (cases builder) (auto simp: passes_validation_def validate_None validate_Some Let_def)

lemma validate_passes:
  "passes_validation builder w \<Longrightarrow> validate builder w = ((True, None), w)"
  by (cases builder)
     (auto simp: passes_validation_def validate_None validate_Some Let_def split: if_splits)

lemma validate_fails:
  "\<not> passes_validation builder w \<Longrightarrow>
     \<exists>e w1. validate builder w = ((False, Some e), w1) \<and> calls w1 = calls w"
  by (cases builder)
     (auto simp: passes_validation_def validate_None validate_Some Let_def split: if_splits)

lemma Exists_valid:
  assumes "passes_validation (Some a) w"
    and "Definition (heap w a) = Some d" and "apiClient (heap w a) = Some c"
    and "Services_Get c (calls w) (Namespace d) (Name d) = (obj, err)"
  shows "Exists (Some a) w =
           Return (err = None \<or> \<not> IsNotFound err)
             ((store a ((heap w a)\<lparr>Object := obj\<rparr>) w)
                \<lparr>calls := calls w @ [GetCall (Namespace d) (Name d)]\<rparr>)"
  using assms by (simp add: Exists_def validate_passes)

lemma Exists_valid_frame:
  assumes "passes_validation (Some a) w"
    and "Definition (heap w a) = Some d" and "apiClient (heap w a) = Some c"
    and "Exists (Some a) w = Return found w'"
  shows "Definition (heap w' a) = Some d \<and> apiClient (heap w' a) = Some c
         \<and> errorMsg (heap w' a) = errorMsg (heap w a)
         \<and> calls w' = calls w @ [GetCall (Namespace d) (Name d)]
         \<and> Object (heap w' a) = fst (Services_Get c (calls w) (Namespace d) (Name d))"
proof -
  obtain obj err where g: "Services_Get c (calls w) (Namespace d) (Name d) = (obj, err)"
    by (cases "Services_Get c (calls w) (Namespace d) (Name d)")
  from Exists_valid [OF assms(1-3) g] assms(2-4) g show ?thesis by auto
qed

subsection \<open>The example stores\<close>

lemma heap_world_of:
  "heap (world_of client name nsname) 0 =
     \<lparr>Definition = Some \<lparr>Name = name, Namespace = nsname, Annotations = None,
          Spec = \<lparr>Ports = [example_port], Selector = None, Type = [],
                  ExternalTrafficPolicy = [], IPFamilies = None, IPFamilyPolicy = None\<rparr>\<rparr>,
       Object = None,
       errorMsg = (if nsname = [] then ''Namespace 'nsname' cannot be empty''
                   else if name = [] then ''Service 'name' cannot be empty'' else []),
       apiClient = client\<rparr>"
  by (simp add: world_of_def NewBuilder_def world0_def Let_def)

lemma calls_world_of: "calls (world_of client name nsname) = []"
  by (simp add: world_of_def NewBuilder_def world0_def Let_def)

lemma web_world_builder:
  "heap (web_world client) 0 =
     \<lparr>Definition = Some web, Object = None, errorMsg = [], apiClient = Some client\<rparr>"
  by (simp add: web_world_def heap_world_of web_def)

lemma web_world_calls: "calls (web_world client) = []"
  by (simp add: web_world_def calls_world_of)

lemma web_world_passes: "passes_validation (Some 0) (web_world client)"
  by (simp add: passes_validation_iff web_world_builder)

lemma web_fields: "Name web = ''web''" "Namespace web = ''default''"
  by (simp_all add: web_def)

lemma web_world_Definition: "Definition (heap (web_world client) 0) = Some web"
  by (simp add: web_world_builder)

lemma web_world_apiClient: "apiClient (heap (web_world client) 0) = Some client"
  by (simp add: web_world_builder)

lemma Exists_web_world:
  "Services_Get client [] ''default'' ''web'' = (obj, err) \<Longrightarrow>
   Exists (Some 0) (web_world client) =
     Return (err = None \<or> \<not> IsNotFound err)
       ((store 0 \<lparr>Definition = Some web, Object = obj, errorMsg = [], apiClient = Some client\<rparr>
           (web_world client))\<lparr>calls := [GetCall ''default'' ''web'']\<rparr>)"
  using Exists_valid [of 0 "web_world client" web client obj err]
  by (simp add: web_world_passes web_world_builder web_world_calls web_fields)

lemma Exists_empty_cluster:
  "Exists (Some 0) (web_world empty_cluster) =
     Return False
       ((store 0 \<lparr>Definition = Some web, Object = None, errorMsg = [],
                  apiClient = Some empty_cluster\<rparr>
           (web_world empty_cluster))\<lparr>calls := [GetCall ''default'' ''web'']\<rparr>)"
  by (simp add: Exists_web_world empty_cluster_def)

lemma Exists_full_cluster:
  "Exists (Some 0) (web_world full_cluster) =
     Return True
       ((store 0 \<lparr>Definition = Some web, Object = Some (example_service ''default'' ''web''),
                  errorMsg = [], apiClient = Some full_cluster\<rparr>
           (web_world full_cluster))\<lparr>calls := [GetCall ''default'' ''web'']\<rparr>)"
  by (simp add: Exists_web_world full_cluster_def)


lemma Exists_unreachable_cluster:
  "Exists (Some 0) (web_world unreachable_cluster) =
     Return True
       ((store 0 \<lparr>Definition = Some web, Object = None, errorMsg = [],
                  apiClient = Some unreachable_cluster\<rparr>
           (web_world unreachable_cluster))\<lparr>calls := [GetCall ''default'' ''web'']\<rparr>)"
  by (simp add: Exists_web_world unreachable_cluster_def)

lemma Exists_allocating_cluster:
  "Exists (Some 0) (web_world (allocating_cluster e)) =
     Return (\<not> IsNotFound (Some e))
       ((store 0 \<lparr>Definition = Some web, Object = Some zero_Service, errorMsg = [],
                  apiClient = Some (allocating_cluster e)\<rparr>
           (web_world (allocating_cluster e)))\<lparr>calls := [GetCall ''default'' ''web'']\<rparr>)"
proof -
  have "Services_Get (allocating_cluster e) [] ''default'' ''web'' = (Some zero_Service, Some e)"
    by (simp add: allocating_cluster_def)
  from Exists_web_world [OF this] show ?thesis by simp
qed

subsection \<open>When the guard fails\<close>

lemma guard_fails:
  assumes "\<not> passes_validation builder w"
  shows "\<exists>e w1. validate builder w = ((False, Some e), w1) \<and> calls w1 = calls w
           \<and> Exists builder w = Return False w1
           \<and> Create builder w = Return (builder, Some e) w1
           \<and> Delete builder w = Return (Some e) w1
           \<and> WithNodePort builder w = Return builder w1
           \<and> WithOptions builder options w = Return builder w1
           \<and> WithExternalTrafficPolicy builder policyType w = Return builder w1
           \<and> WithAnnotation builder annotation w = Return builder w1
           \<and> WithIPFamily builder ipFamily ipStackPolicy w = Return builder w1"
proof -
  from validate_fails [OF assms] obtain e w1
    where v: "validate builder w = ((False, Some e), w1)" and c: "calls w1 = calls w"
    by blast
  show ?thesis
    using v c
    by (simp add: Exists_def Create_def Delete_def WithNodePort_def WithOptions_def
          WithExternalTrafficPolicy_def WithAnnotation_def WithIPFamily_def)
qed

lemma guard_fails_errorMsg:
  assumes "errorMsg (heap w a) \<noteq> []"
  shows "\<exists>w1. validate (Some a) w = ((False, Some (Errorf (errorMsg (heap w1 a)) [])), w1)
           \<and> calls w1 = calls w \<and> Definition (heap w1 a) = Definition (heap w a)
           \<and> errorMsg (heap w1 a) =
               (if apiClient (heap w a) = None then ''Service builder cannot have nil apiClient''
                else if Definition (heap w a) = None then ''can not redefine the undefined Service''
                else errorMsg (heap w a))"
  using assms by (auto simp: validate_Some Let_def)

subsection \<open>The mutators on a valid builder\<close>

lemma WithOptions_loop_receiver:
  assumes "\<forall>option v. Some option \<in> set options \<longrightarrow>
             (\<exists>r e v1. option (Some a) v = Return (r, e) v1 \<and> (e = None \<or> r = Some a))"
  shows "\<exists>w1. WithOptions_loop (Some a) options w = Return (Some a) w1"
  using assms
proof (induction options arbitrary: w)
  case Nil
  show ?case by simp
next
  case (Cons x options)
  show ?case
  proof (cases x)
    case None
    with Cons show ?thesis by simp
  next
    case (Some option)
    with Cons.prems obtain r e v1
      where o: "option (Some a) w = Return (r, e) v1" and re: "e = None \<or> r = Some a"
      by (metis list.set_intros(1))
    from Cons have ih: "\<exists>w1. WithOptions_loop (Some a) options v1 = Return (Some a) w1"
      by simp
    show ?thesis
    proof (cases e)
      case None
      with Some o ih show ?thesis by simp
    next
      case (Some msg)
      with re have "r = Some a" by simp
      with \<open>x = Some option\<close> o Some show ?thesis by simp
    qed
  qed
qed

lemma mutator_receiver_valid:
  assumes "passes_validation (Some a) w"
  shows "(\<exists>w1. WithNodePort (Some a) w = Return (Some a) w1)
       \<and> (\<exists>w1. WithExternalTrafficPolicy (Some a) policyType w = Return (Some a) w1)
       \<and> (\<exists>w1. WithAnnotation (Some a) annotation w = Return (Some a) w1)
       \<and> (\<exists>w1. WithIPFamily (Some a) ipFamily ipStackPolicy w = Return (Some a) w1)"
proof -
  from assms obtain d where d: "Definition (heap w a) = Some d"
    by (auto simp: passes_validation_iff)
  from assms have m: "errorMsg (heap w a) = []"
    by (auto simp: passes_validation_iff)
  show ?thesis
    using d m
    by (simp add: WithNodePort_def WithExternalTrafficPolicy_def WithAnnotation_def
          WithIPFamily_def validate_passes [OF assms] Let_def)
qed

lemma web_world_next_free: "next_free (web_world client) = Suc 0"
  by (simp add: web_world_def world_of_def NewBuilder_def world0_def Let_def)

subsection \<open>Ports\<close>

lemma isValidPort_always: "isValidPort p"
proof -
  have "0 < sint p \<or> sint p < 65535" by arith
  then show ?thesis by (simp add: isValidPort_def word_sless_alt)
qed

subsection \<open>Which error is reported\<close>

text \<open>
  Claim C1, as the code has it. When more than one validation check fails, the error that
  \<open>validate()\<close>, \<open>Create()\<close> and \<open>Delete()\<close> report is that of the last check that
  failed, since every check overwrites errorMsg: \<open>NewBuilder\<close> with an empty name and an
  empty nsname leaves "Namespace 'nsname' cannot be empty"; \<open>validate\<close> on a builder that
  is not nil reports the nil apiClient before the nil Definition before an errorMsg stored
  earlier; \<open>Create\<close> and \<open>Delete\<close> return the error of \<open>validate\<close>.
\<close>

theorem last_failed_check_is_reported:
  "fst (NewBuilder client name nsname labels servicePort w0) = Some (next_free w0)
   \<and> errorMsg (heap (snd (NewBuilder client name nsname labels servicePort w0)) (next_free w0))
       = (if nsname = [] then ''Namespace 'nsname' cannot be empty''
          else if name = [] then ''Service 'name' cannot be empty'' else [])
   \<and> snd (fst (validate (Some a) w))
       = (if apiClient (heap w a) = None
          then Some (Errorf ''Service builder cannot have nil apiClient'' [])
          else if Definition (heap w a) = None
          then Some (Errorf ''can not redefine the undefined Service'' [])
          else if errorMsg (heap w a) = [] then None
          else Some (Errorf (errorMsg (heap w a)) []))
   \<and> (\<not> passes_validation builder w \<longrightarrow>
         Create builder w = Return (builder, snd (fst (validate builder w))) (snd (validate builder w))
         \<and> Delete builder w = Return (snd (fst (validate builder w))) (snd (validate builder w)))"
proof -
  have n: "fst (NewBuilder client name nsname labels servicePort w0) = Some (next_free w0)
   \<and> errorMsg (heap (snd (NewBuilder client name nsname labels servicePort w0)) (next_free w0))
       = (if nsname = [] then ''Namespace 'nsname' cannot be empty''
          else if name = [] then ''Service 'name' cannot be empty'' else [])"
    by (simp add: NewBuilder_def Let_def)
  have v: "snd (fst (validate (Some a) w))
       = (if apiClient (heap w a) = None
          then Some (Errorf ''Service builder cannot have nil apiClient'' [])
          else if Definition (heap w a) = None
          then Some (Errorf ''can not redefine the undefined Service'' [])
          else if errorMsg (heap w a) = [] then None
          else Some (Errorf (errorMsg (heap w a)) []))"
    by (simp add: validate_Some Let_def)
  have c: "\<not> passes_validation builder w \<longrightarrow>
         Create builder w = Return (builder, snd (fst (validate builder w))) (snd (validate builder w))
         \<and> Delete builder w = Return (snd (fst (validate builder w))) (snd (validate builder w))"
  proof
    assume f: "\<not> passes_validation builder w"
    from guard_fails [OF f, of "[]" "[]" None None "[]"]
    show "Create builder w = Return (builder, snd (fst (validate builder w))) (snd (validate builder w))
         \<and> Delete builder w = Return (snd (fst (validate builder w))) (snd (validate builder w))"
      by auto
  qed
  from n v c show ?thesis by blast
qed

theorem last_failed_check_is_reported_witness:
  "errorMsg (heap (world_of None [] []) 0) = ''Namespace 'nsname' cannot be empty''
   \<and> \<not> passes_validation (Some 0) (world_of None [] [])
   \<and> returned (Create (Some 0) (world_of None [] []))
       = Some (Some 0, Some (Errorf ''Service builder cannot have nil apiClient'' []))
   \<and> returned (Delete (Some 0) (world_of None [] []))
       = Some (Some (Errorf ''Service builder cannot have nil apiClient'' []))
   \<and> \<not> passes_validation (Some 0) (world_of (Some full_cluster) [] [])
   \<and> returned (Create (Some 0) (world_of (Some full_cluster) [] []))
       = Some (Some 0, Some (Errorf ''Namespace 'nsname' cannot be empty'' []))
   \<and> returned (Delete (Some 0) (world_of (Some full_cluster) [] []))
       = Some (Some (Errorf ''Namespace 'nsname' cannot be empty'' []))"
proof -
  have p: "\<not> passes_validation (Some 0) (world_of client [] [])" for client
    by (simp add: passes_validation_iff heap_world_of)
  from last_failed_check_is_reported
         [where w = "world_of None [] []" and builder = "Some 0" and a = 0
            and w0 = world0 and client = None and name = "[]" and nsname = "[]"
            and labels = None and servicePort = example_port]
       last_failed_check_is_reported
         [where w = "world_of (Some full_cluster) [] []" and builder = "Some 0" and a = 0
            and w0 = world0 and client = "Some full_cluster" and name = "[]" and nsname = "[]"
            and labels = None and servicePort = example_port]
       p
  show ?thesis
    by (simp add: heap_world_of)
qed

text \<open>
  The claim as it was stated, that the first error met is the one reported, fails for
  \<open>NewBuilder(client, "", "", ...)\<close>: the name is checked first, the namespace message is
  reported.
\<close>

theorem first_error_overwritten_counterexample:
  "snd (fst (validate (Some 0) (world_of (Some full_cluster) [] [])))
     = Some (Errorf ''Namespace 'nsname' cannot be empty'' [])
   \<and> returned (Create (Some 0) (world_of (Some full_cluster) [] []))
       = Some (Some 0, Some (Errorf ''Namespace 'nsname' cannot be empty'' []))
   \<and> returned (Delete (Some 0) (world_of (Some full_cluster) [] []))
       = Some (Some (Errorf ''Namespace 'nsname' cannot be empty'' []))
   \<and> Errorf ''Namespace 'nsname' cannot be empty'' [] \<noteq> Errorf ''Service 'name' cannot be empty'' []"
  by (simp add: Create_def Delete_def validate_Some heap_world_of)

subsection \<open>Nil builders and nil fields\<close>

text \<open>
  Claim C2. For a builder that is nil, or whose Definition is nil, or whose apiClient is
  nil, \<open>validate()\<close> returns false and an error that is not nil, and every operation it
  guards (\<open>Exists\<close>, \<open>Create\<close>, \<open>Delete\<close> and each \<open>With*\<close> mutator) returns at
  once: none panics, that is, none dereferences the nil field, and none calls the cluster
  API. \<open>Create\<close> and \<open>Delete\<close> return the error of \<open>validate\<close>.
\<close>

theorem nil_fields_are_guarded:
  assumes "builder = None
           \<or> (\<exists>a. builder = Some a
                 \<and> (Definition (heap w a) = None \<or> apiClient (heap w a) = None))"
  shows "\<exists>e w1. validate builder w = ((False, Some e), w1) \<and> calls w1 = calls w
           \<and> Exists builder w = Return False w1
           \<and> Create builder w = Return (builder, Some e) w1
           \<and> Delete builder w = Return (Some e) w1
           \<and> WithNodePort builder w = Return builder w1
           \<and> WithOptions builder options w = Return builder w1
           \<and> WithExternalTrafficPolicy builder policyType w = Return builder w1
           \<and> WithAnnotation builder annotation w = Return builder w1
           \<and> WithIPFamily builder ipFamily ipStackPolicy w = Return builder w1"
proof -
  from assms have "\<not> passes_validation builder w"
    by (auto simp: passes_validation_iff)
  then show ?thesis by (rule guard_fails)
qed

theorem nil_fields_are_guarded_witness:
  "Definition (heap world0 0) = None
   \<and> fst (fst (validate (Some 0) world0)) = False
   \<and> snd (fst (validate (Some 0) world0))
       = Some (Errorf ''Service builder cannot have nil apiClient'' [])
   \<and> returned (Exists (Some 0) world0) = Some False
   \<and> returned (Create (Some 0) world0)
       = Some (Some 0, Some (Errorf ''Service builder cannot have nil apiClient'' []))
   \<and> returned (Delete (Some 0) world0)
       = Some (Some (Errorf ''Service builder cannot have nil apiClient'' []))
   \<and> returned (WithNodePort (Some 0) world0) = Some (Some 0)
   \<and> returned (WithOptions (Some 0) [Some nil_builder_option] world0) = Some (Some 0)
   \<and> returned (WithExternalTrafficPolicy (Some 0) ''Local'' world0) = Some (Some 0)
   \<and> returned (WithAnnotation (Some 0) None world0) = Some (Some 0)
   \<and> returned (WithIPFamily (Some 0) None [] world0) = Some (Some 0)
   \<and> map_option calls (world_after (Create (Some 0) world0)) = Some []
   \<and> map_option calls (world_after (Delete (Some 0) world0)) = Some []
   \<and> map_option calls (world_after (Exists (Some 0) world0)) = Some []
   \<and> returned (Create None world0)
       = Some (None, Some (Errorf ''error: received nil %s builder'' [''Service'']))
   \<and> returned (WithNodePort None world0) = Some None"
proof -
  have d: "Definition (heap world0 0) = None"
    by (simp add: world0_def zero_Builder_def)
  have v: "validate (Some 0) world0 =
             ((False, Some (Errorf ''Service builder cannot have nil apiClient'' [])),
              store 0 (zero_Builder\<lparr>errorMsg := ''Service builder cannot have nil apiClient''\<rparr>) world0)"
    by (simp add: validate_Some world0_def zero_Builder_def)
  have c: "calls world0 = []"
    by (simp add: world0_def)
  have h: "Some 0 = None
           \<or> (\<exists>a. Some 0 = Some a
                 \<and> (Definition (heap world0 a) = None \<or> apiClient (heap world0 a) = None))"
    using d by simp
  from nil_fields_are_guarded [OF h, of "[Some nil_builder_option]" "''Local''" None None "[]"]
       nil_fields_are_guarded [of None world0]
  show ?thesis
    by (auto simp: d v c validate_None)
qed

subsection \<open>A stored errorMsg\<close>

text \<open>
  Claim C3, as the code has it. For a builder whose errorMsg is not empty, every
  \<open>With*\<close> mutator returns with the Definition unchanged, \<open>Exists()\<close> returns false
  and \<open>Create()\<close> and \<open>Delete()\<close> return an error, all without a call to the cluster
  API. The error is built from the errorMsg that \<open>validate\<close> leaves in the builder: the
  stored errorMsg when Definition and apiClient are both set, and otherwise the message
  of the nil field, which replaces it.
\<close>

theorem errorMsg_stops_every_operation:
  assumes "errorMsg (heap w a) \<noteq> []"
  shows "\<exists>w1. calls w1 = calls w \<and> Definition (heap w1 a) = Definition (heap w a)
           \<and> errorMsg (heap w1 a) =
               (if apiClient (heap w a) = None then ''Service builder cannot have nil apiClient''
                else if Definition (heap w a) = None then ''can not redefine the undefined Service''
                else errorMsg (heap w a))
           \<and> WithNodePort (Some a) w = Return (Some a) w1
           \<and> WithOptions (Some a) options w = Return (Some a) w1
           \<and> WithExternalTrafficPolicy (Some a) policyType w = Return (Some a) w1
           \<and> WithAnnotation (Some a) annotation w = Return (Some a) w1
           \<and> WithIPFamily (Some a) ipFamily ipStackPolicy w = Return (Some a) w1
           \<and> Exists (Some a) w = Return False w1
           \<and> Create (Some a) w = Return (Some a, Some (Errorf (errorMsg (heap w1 a)) [])) w1
           \<and> Delete (Some a) w = Return (Some (Errorf (errorMsg (heap w1 a)) [])) w1"
proof -
  from guard_fails_errorMsg [OF assms] obtain w1
    where v: "validate (Some a) w = ((False, Some (Errorf (errorMsg (heap w1 a)) [])), w1)"
      and c: "calls w1 = calls w" and d: "Definition (heap w1 a) = Definition (heap w a)"
      and m: "errorMsg (heap w1 a) =
               (if apiClient (heap w a) = None then ''Service builder cannot have nil apiClient''
                else if Definition (heap w a) = None then ''can not redefine the undefined Service''
                else errorMsg (heap w a))"
    by blast
  have "calls w1 = calls w \<and> Definition (heap w1 a) = Definition (heap w a)
           \<and> errorMsg (heap w1 a) =
               (if apiClient (heap w a) = None then ''Service builder cannot have nil apiClient''
                else if Definition (heap w a) = None then ''can not redefine the undefined Service''
                else errorMsg (heap w a))
           \<and> WithNodePort (Some a) w = Return (Some a) w1
           \<and> WithOptions (Some a) options w = Return (Some a) w1
           \<and> WithExternalTrafficPolicy (Some a) policyType w = Return (Some a) w1
           \<and> WithAnnotation (Some a) annotation w = Return (Some a) w1
           \<and> WithIPFamily (Some a) ipFamily ipStackPolicy w = Return (Some a) w1
           \<and> Exists (Some a) w = Return False w1
           \<and> Create (Some a) w = Return (Some a, Some (Errorf (errorMsg (heap w1 a)) [])) w1
           \<and> Delete (Some a) w = Return (Some (Errorf (errorMsg (heap w1 a)) [])) w1"
    using c d m
    by (simp add: v Exists_def Create_def Delete_def WithNodePort_def WithOptions_def
          WithExternalTrafficPolicy_def WithAnnotation_def WithIPFamily_def)
  then show ?thesis by blast
qed

theorem errorMsg_stops_every_operation_witness:
  "errorMsg (heap (world_of (Some full_cluster) [] ''default'') 0) = ''Service 'name' cannot be empty''
   \<and> returned (Create (Some 0) (world_of (Some full_cluster) [] ''default''))
       = Some (Some 0, Some (Errorf ''Service 'name' cannot be empty'' []))
   \<and> returned (Delete (Some 0) (world_of (Some full_cluster) [] ''default''))
       = Some (Some (Errorf ''Service 'name' cannot be empty'' []))
   \<and> returned (Exists (Some 0) (world_of (Some full_cluster) [] ''default'')) = Some False
   \<and> map_option calls (world_after (Create (Some 0) (world_of (Some full_cluster) [] ''default'')))
       = Some []
   \<and> returned (WithAnnotation (Some 0) (Some Map.empty) (world_of (Some full_cluster) [] ''default''))
       = Some (Some 0)
   \<and> map_option (\<lambda>w. Definition (heap w 0))
        (world_after (WithAnnotation (Some 0) (Some Map.empty)
           (world_of (Some full_cluster) [] ''default'')))
       = Some (Definition (heap (world_of (Some full_cluster) [] ''default'') 0))"
proof -
  let ?w = "world_of (Some full_cluster) [] ''default''"
  have m: "errorMsg (heap ?w 0) = ''Service 'name' cannot be empty''"
    by (simp add: heap_world_of)
  have h: "errorMsg (heap ?w 0) \<noteq> []"
    by (simp add: m)
  have c: "apiClient (heap ?w 0) \<noteq> None" "Definition (heap ?w 0) \<noteq> None"
    by (simp_all add: heap_world_of)
  from errorMsg_stops_every_operation [OF h, of "[]" "[]" "Some Map.empty" None "[]"]
  show ?thesis
    using c by (auto simp: m calls_world_of)
qed

text \<open>
  The claim as it was stated, that the error is built from the errorMsg the builder had,
  fails for \<open>NewBuilder(nil, "", "default", ...)\<close>: the builder holds the message of the
  empty name, and \<open>Create\<close> and \<open>Delete\<close> report the nil apiClient.
\<close>

theorem errorMsg_not_reported_counterexample:
  "errorMsg (heap (world_of None [] ''default'') 0) = ''Service 'name' cannot be empty''
   \<and> returned (Create (Some 0) (world_of None [] ''default''))
       = Some (Some 0, Some (Errorf ''Service builder cannot have nil apiClient'' []))
   \<and> returned (Delete (Some 0) (world_of None [] ''default''))
       = Some (Some (Errorf ''Service builder cannot have nil apiClient'' []))"
  by (simp add: Create_def Delete_def validate_Some heap_world_of)

subsection \<open>Fluent mutators\<close>

text \<open>
  Claim C4, as the code has it. \<open>WithNodePort\<close>, \<open>WithExternalTrafficPolicy\<close>,
  \<open>WithAnnotation\<close> and \<open>WithIPFamily\<close> return the builder pointer they were called
  on, whether they succeed or fail. \<open>WithOptions\<close> returns the pointer it was called on
  when validation fails and when no option reports an error; when an option reports an
  error it returns the pointer that option returned, which is the receiver if every option
  that reports an error returns the builder it was given.
\<close>

theorem mutators_return_receiver:
  "(\<exists>w1. WithNodePort builder w = Return builder w1)
   \<and> (\<exists>w1. WithExternalTrafficPolicy builder policyType w = Return builder w1)
   \<and> (\<exists>w1. WithAnnotation builder annotation w = Return builder w1)
   \<and> (\<exists>w1. WithIPFamily builder ipFamily ipStackPolicy w = Return builder w1)
   \<and> ((\<forall>option v. Some option \<in> set options \<longrightarrow>
          (\<exists>r e v1. option builder v = Return (r, e) v1 \<and> (e = None \<or> r = builder)))
        \<longrightarrow> (\<exists>w1. WithOptions builder options w = Return builder w1))"
proof (cases "passes_validation builder w")
  case False
  from guard_fails [OF False, of options policyType annotation ipFamily ipStackPolicy]
  show ?thesis by auto
next
  case True
  then obtain a where a: "builder = Some a"
    by (auto simp: passes_validation_iff)
  from True a have p: "passes_validation (Some a) w" by simp
  have "(\<forall>option v. Some option \<in> set options \<longrightarrow>
          (\<exists>r e v1. option (Some a) v = Return (r, e) v1 \<and> (e = None \<or> r = Some a)))
        \<longrightarrow> (\<exists>w1. WithOptions (Some a) options w = Return (Some a) w1)"
    using WithOptions_loop_receiver [of options a w]
    by (simp add: WithOptions_def validate_passes [OF p])
  with mutator_receiver_valid [OF p, of policyType annotation ipFamily ipStackPolicy] a
  show ?thesis by simp
qed

theorem mutators_return_receiver_witness:
  "returned (WithNodePort (Some 0) (web_world full_cluster)) = Some (Some 0)
   \<and> returned (WithExternalTrafficPolicy (Some 0) [] (web_world full_cluster)) = Some (Some 0)
   \<and> returned (WithAnnotation (Some 0) None (web_world full_cluster)) = Some (Some 0)
   \<and> returned (WithIPFamily (Some 0) (Some [''IPv4'']) ''SingleStack'' (web_world full_cluster))
       = Some (Some 0)
   \<and> returned (WithOptions (Some 0) [None, Some failing_option] (web_world full_cluster))
       = Some (Some 0)"
proof -
  have h: "\<forall>option v. Some option \<in> set [None, Some failing_option] \<longrightarrow>
          (\<exists>r e v1. option (Some 0) v = Return (r, e) v1 \<and> (e = None \<or> r = Some 0))"
    by (simp add: failing_option_def)
  from mutators_return_receiver
         [of "Some 0" "web_world full_cluster" "[]" None "Some [''IPv4'']" "''SingleStack''"
             "[None, Some failing_option]"] h
  show ?thesis by auto
qed

text \<open>
  The claim as it was stated fails for \<open>WithOptions\<close> with an option that reports an
  error and returns another builder: that builder is returned, not the receiver.
\<close>

theorem WithOptions_other_pointer_counterexample:
  "returned (WithOptions (Some 0) [Some fresh_builder_option] (web_world full_cluster))
     = Some (Some 1)"
  by (simp add: WithOptions_def validate_passes [OF web_world_passes] fresh_builder_option_def
        web_world_next_free)

text \<open>An option that reports an error and returns nil makes \<open>WithOptions\<close> panic.\<close>

lemma WithOptions_nil_pointer_panics:
  "WithOptions (Some 0) [Some nil_builder_option] (web_world full_cluster) = Panic"
  by (simp add: WithOptions_def validate_passes [OF web_world_passes] nil_builder_option_def)

subsection \<open>DefineServicePort\<close>

text \<open>
  Claim C8. \<open>DefineServicePort\<close> returns, for every pair of int32 values \<open>port\<close> and
  \<open>targetPort\<close> (zero, negative and above 65535 included), a ServicePort with the given
  protocol, port and integer target port, and a nil error: \<open>isValidPort\<close> is true of
  every int32, since one of \<open>port > 0\<close> and \<open>port < 65535\<close> always holds, so neither
  error branch can be taken.
\<close>

theorem DefineServicePort_never_fails:
  "isValidPort port \<and> isValidPort targetPort \<and>
   DefineServicePort port targetPort protocol =
     (Some \<lparr>Protocol = protocol, Port = port,
             TargetPort = \<lparr>IntStr_Type = intstr_Int, IntVal = targetPort, StrVal = []\<rparr>,
             NodePort = 0\<rparr>, None)"
  by (simp add: DefineServicePort_def isValidPort_always)

subsection \<open>Exists\<close>

text \<open>
  Claim C5, as the code has it. After \<open>Exists()\<close> on a builder that passes validation,
  the builder's Object is exactly the object pointer that the cluster API Get returned for
  the Definition's namespace and name, whether the Get succeeded or failed, and that Get
  is the one call made: Object is the fetched service when the Get succeeded, and the
  pointer that came back with the error when it failed, which is nil only if the client
  returns nil with its error.
\<close>

theorem Exists_stores_what_Get_returned:
  assumes "passes_validation (Some a) w"
    and "Definition (heap w a) = Some d" and "apiClient (heap w a) = Some c"
    and "Services_Get c (calls w) (Namespace d) (Name d) = (obj, err)"
  shows "\<exists>found w1. Exists (Some a) w = Return found w1 \<and> Object (heap w1 a) = obj
           \<and> calls w1 = calls w @ [GetCall (Namespace d) (Name d)]"
  using Exists_valid [OF assms] by simp

theorem Exists_stores_what_Get_returned_witness:
  "passes_validation (Some 0) (web_world full_cluster)
   \<and> map_option (\<lambda>w. Object (heap w 0)) (world_after (Exists (Some 0) (web_world full_cluster)))
       = Some (Some (example_service ''default'' ''web''))
   \<and> map_option calls (world_after (Exists (Some 0) (web_world full_cluster)))
       = Some [GetCall ''default'' ''web'']
   \<and> passes_validation (Some 0) (web_world empty_cluster)
   \<and> map_option (\<lambda>w. Object (heap w 0)) (world_after (Exists (Some 0) (web_world empty_cluster)))
       = Some None
   \<and> map_option calls (world_after (Exists (Some 0) (web_world empty_cluster)))
       = Some [GetCall ''default'' ''web'']"
proof -
  have gf: "Services_Get full_cluster (calls (web_world full_cluster)) (Namespace web) (Name web)
              = (Some (example_service ''default'' ''web''), None)"
    by (simp add: full_cluster_def web_fields)
  have ge: "Services_Get empty_cluster (calls (web_world empty_cluster)) (Namespace web) (Name web)
              = (None, Some (StatusError True ''not found''))"
    by (simp add: empty_cluster_def)
  from Exists_stores_what_Get_returned
         [OF web_world_passes web_world_Definition web_world_apiClient gf]
       Exists_stores_what_Get_returned
         [OF web_world_passes web_world_Definition web_world_apiClient ge]
  show ?thesis
    by (auto simp: web_world_passes web_world_calls web_fields)
qed

text \<open>
  The claim as it was stated, that Object is nil when the Get fails, fails for a client
  that returns an object with its error: \<open>Exists\<close> assigns Object before it looks at the
  error, and nothing resets it.
\<close>

theorem Object_after_failed_Get_counterexample:
  "passes_validation (Some 0) (web_world (allocating_cluster (StatusError True ''not found'')))
   \<and> snd (Services_Get (allocating_cluster (StatusError True ''not found'')) [] ''default'' ''web'')
       = Some (StatusError True ''not found'')
   \<and> returned (Exists (Some 0) (web_world (allocating_cluster (StatusError True ''not found''))))
       = Some False
   \<and> Object_after (Exists (Some 0) (web_world (allocating_cluster (StatusError True ''not found'')))) 0
       = Some (Some zero_Service)"
  by (simp add: web_world_passes Exists_allocating_cluster)
     (simp add: allocating_cluster_def)

text \<open>
  Claim C9, as the code has it. On a builder that passes validation \<open>Exists()\<close> returns
  false only when the Get failed with a NotFound error. After any other failure of the Get
  (the cluster cannot be reached, the client is not authorised) it returns true, and
  Object then holds the pointer that came back with the error, which is nil only if the
  client returns nil with its error.
\<close>

theorem Exists_false_only_on_NotFound:
  assumes "passes_validation (Some a) w"
    and "Definition (heap w a) = Some d" and "apiClient (heap w a) = Some c"
    and "Services_Get c (calls w) (Namespace d) (Name d) = (obj, err)"
  shows "\<exists>found w1. Exists (Some a) w = Return found w1
           \<and> (\<not> found \<longleftrightarrow> err \<noteq> None \<and> IsNotFound err)
           \<and> Object (heap w1 a) = obj"
  using Exists_valid [OF assms] by auto

theorem Exists_false_only_on_NotFound_witness:
  "passes_validation (Some 0) (web_world unreachable_cluster)
   \<and> returned (Exists (Some 0) (web_world unreachable_cluster)) = Some True
   \<and> map_option (\<lambda>w. Object (heap w 0)) (world_after (Exists (Some 0) (web_world unreachable_cluster)))
       = Some None
   \<and> passes_validation (Some 0) (web_world empty_cluster)
   \<and> returned (Exists (Some 0) (web_world empty_cluster)) = Some False"
proof -
  have gu: "Services_Get unreachable_cluster (calls (web_world unreachable_cluster))
              (Namespace web) (Name web) = (None, Some (StatusError False ''connection refused''))"
    by (simp add: unreachable_cluster_def)
  have ge: "Services_Get empty_cluster (calls (web_world empty_cluster))
              (Namespace web) (Name web) = (None, Some (StatusError True ''not found''))"
    by (simp add: empty_cluster_def)
  from Exists_false_only_on_NotFound
         [OF web_world_passes web_world_Definition web_world_apiClient gu]
       Exists_false_only_on_NotFound
         [OF web_world_passes web_world_Definition web_world_apiClient ge]
  show ?thesis by (auto simp: web_world_passes)
qed

text \<open>
  The claim as it was stated, that Object is then nil, fails for a client that returns an
  object with its error: \<open>Exists\<close> returns true and Object is that object.
\<close>

theorem Exists_true_with_Object_counterexample:
  "passes_validation (Some 0) (web_world (allocating_cluster (StatusError False ''forbidden'')))
   \<and> snd (Services_Get (allocating_cluster (StatusError False ''forbidden'')) [] ''default'' ''web'')
       = Some (StatusError False ''forbidden'')
   \<and> returned (Exists (Some 0) (web_world (allocating_cluster (StatusError False ''forbidden''))))
       = Some True
   \<and> Object_after (Exists (Some 0) (web_world (allocating_cluster (StatusError False ''forbidden'')))) 0
       = Some (Some zero_Service)"
  by (simp add: web_world_passes Exists_allocating_cluster)
     (simp add: allocating_cluster_def)

subsection \<open>Create\<close>

text \<open>
  Claim C6. On a valid builder \<open>Create()\<close> first asks \<open>Exists()\<close>, which makes one Get.
  When that answers false, \<open>Create()\<close> calls the cluster API Create with the Definition,
  stores the object the call returned in Object and returns the builder with the error of
  the call. When \<open>Exists()\<close> answers true, \<open>Create()\<close> makes no Create call and returns
  the builder with a nil error.
\<close>

theorem Create_only_when_absent:
  assumes "passes_validation (Some a) w"
    and "Definition (heap w a) = Some d" and "apiClient (heap w a) = Some c"
    and "Exists (Some a) w = Return found w'"
  shows "calls w' = calls w @ [GetCall (Namespace d) (Name d)]
         \<and> (found \<longrightarrow> Create (Some a) w = Return (Some a, None) w')
         \<and> (\<not> found \<longrightarrow>
              (\<exists>w1. Create (Some a) w =
                      Return (Some a, snd (Services_Create c (calls w') (Namespace d) d)) w1
                 \<and> Object (heap w1 a) = fst (Services_Create c (calls w') (Namespace d) d)
                 \<and> calls w1 = calls w' @ [CreateCall (Namespace d) d]))"
proof -
  note fr = Exists_valid_frame [OF assms]
  show ?thesis
    using assms fr
    by (simp add: Create_def validate_passes split_beta Let_def)
qed

theorem Create_only_when_absent_witness:
  "passes_validation (Some 0) (web_world empty_cluster)
   \<and> returned (Exists (Some 0) (web_world empty_cluster)) = Some False
   \<and> returned (Create (Some 0) (web_world empty_cluster)) = Some (Some 0, None)
   \<and> map_option calls (world_after (Create (Some 0) (web_world empty_cluster)))
       = Some [GetCall ''default'' ''web'', CreateCall ''default'' web]
   \<and> map_option (\<lambda>w. Object (heap w 0)) (world_after (Create (Some 0) (web_world empty_cluster)))
       = Some (Some web)
   \<and> passes_validation (Some 0) (web_world full_cluster)
   \<and> returned (Exists (Some 0) (web_world full_cluster)) = Some True
   \<and> returned (Create (Some 0) (web_world full_cluster)) = Some (Some 0, None)
   \<and> map_option calls (world_after (Create (Some 0) (web_world full_cluster)))
       = Some [GetCall ''default'' ''web'']"
proof -
  have cr: "Services_Create empty_cluster log ns svc = (Some svc, None)" for log ns svc
    by (simp add: empty_cluster_def)
  from Create_only_when_absent
         [OF web_world_passes web_world_Definition web_world_apiClient Exists_empty_cluster]
       Create_only_when_absent
         [OF web_world_passes web_world_Definition web_world_apiClient Exists_full_cluster]
  show ?thesis
    by (auto simp: web_world_passes Exists_empty_cluster Exists_full_cluster web_fields cr)
qed

subsection \<open>Delete\<close>



text \<open>
  Outside the three cases: when the Get fails with another error than NotFound and returns
  nil, \<open>Exists()\<close> answers true with a nil Object, and \<open>Delete()\<close> panics on
  \<open>builder.Object.Name\<close> before it calls the API Delete.
\<close>

lemma Delete_unreachable_cluster_panics:
  "Delete (Some 0) (web_world unreachable_cluster) = Panic"
  by (simp add: Delete_def validate_passes [OF web_world_passes] web_world_Definition
        Exists_unreachable_cluster)

subsection \<open>WithNodePort\<close>

text \<open>
  Claim C10. On a builder that passes validation and whose Definition has no ports,
  \<open>WithNodePort\<close> sets errorMsg to "service does not have the available ports", and by
  then it has set the Definition's Spec.Type to "NodePort": the Definition is changed
  although the mutator reports a failure.
\<close>

theorem WithNodePort_without_ports:
  assumes "passes_validation (Some a) w"
    and "Definition (heap w a) = Some d" and "Ports (Spec d) = []"
  shows "\<exists>w1. WithNodePort (Some a) w = Return (Some a) w1
           \<and> errorMsg (heap w1 a) = ''service does not have the available ports''
           \<and> Definition (heap w1 a) = Some (d\<lparr>Spec := (Spec d)\<lparr>Type := ''NodePort''\<rparr>\<rparr>)"
  using assms by (simp add: WithNodePort_def validate_passes Let_def)

theorem WithNodePort_without_ports_witness:
  "passes_validation (Some 0) pulled_world
   \<and> Definition (heap pulled_world 0) = Some (example_service ''default'' ''web'')
   \<and> Ports (Spec (example_service ''default'' ''web'')) = []
   \<and> returned (WithNodePort (Some 0) pulled_world) = Some (Some 0)
   \<and> map_option (\<lambda>w. errorMsg (heap w 0)) (world_after (WithNodePort (Some 0) pulled_world))
       = Some ''service does not have the available ports''
   \<and> map_option (\<lambda>w. map_option (\<lambda>d. Type (Spec d)) (Definition (heap w 0)))
        (world_after (WithNodePort (Some 0) pulled_world)) = Some (Some ''NodePort'')
   \<and> map_option (\<lambda>d. Type (Spec d)) (Definition (heap pulled_world 0)) = Some ''ClusterIP''"
proof -
  have p: "passes_validation (Some 0) pulled_world"
    by (simp add: passes_validation_iff pulled_world_def)
  have d: "Definition (heap pulled_world 0) = Some (example_service ''default'' ''web'')"
    by (simp add: pulled_world_def)
  have n: "Ports (Spec (example_service ''default'' ''web'')) = []"
    by (simp add: example_service_def)
  have t: "Type (Spec (example_service ''default'' ''web'')) = ''ClusterIP''"
    by (simp add: example_service_def)
  from WithNodePort_without_ports [OF p d n] show ?thesis
    by (auto simp: p d n t)
qed

end
